theory Spec2Isabelle
  imports Main
begin

section \<open>Aadhaar verification service: model of \<open>app/services/aadhaar.py\<close>\<close>

text \<open>
  The development embeds \<open>verify_aadhaar\<close> and the helpers it calls. Text is a list of
  characters with code points below 256; the character classes of Python's \<open>re\<close> module are
  those of \<open>str\<close> patterns on that range. The imaging, scanning, decoding and recognition
  libraries are parameters of the model (record \<open>engines\<close>); a library call that fails
  raises either an instance of Python's \<open>Exception\<close> or another \<open>BaseException\<close>
  (\<open>KeyboardInterrupt\<close>, \<open>SystemExit\<close>), and the model keeps the message \<open>str(e)\<close>.
\<close>

subsection \<open>Characters\<close>

definition code :: "char \<Rightarrow> nat" where
  "code c = of_char c"

text \<open>\<open>\d\<close>, \<open>\s\<close>, \<open>[A-Za-z]\<close> and \<open>\w\<close> of a \<open>str\<close> pattern.\<close>

definition is_digit :: "char \<Rightarrow> bool" where
  "is_digit c = (48 \<le> code c \<and> code c \<le> 57)"

definition is_space :: "char \<Rightarrow> bool" where
  "is_space c = ((9 \<le> code c \<and> code c \<le> 13) \<or> (28 \<le> code c \<and> code c \<le> 32)
     \<or> code c = 133 \<or> code c = 160)"

definition is_letter :: "char \<Rightarrow> bool" where
  "is_letter c = ((65 \<le> code c \<and> code c \<le> 90) \<or> (97 \<le> code c \<and> code c \<le> 122))"

definition is_word :: "char \<Rightarrow> bool" where
  "is_word c = (is_letter c \<or> is_digit c \<or> code c = 95
     \<or> code c = 170 \<or> code c = 178 \<or> code c = 179 \<or> code c = 181
     \<or> (185 \<le> code c \<and> code c \<le> 186) \<or> (188 \<le> code c \<and> code c \<le> 190)
     \<or> (192 \<le> code c \<and> code c \<le> 214) \<or> (216 \<le> code c \<and> code c \<le> 246)
     \<or> 248 \<le> code c)"

definition lower :: "char \<Rightarrow> char" where
  "lower c = (if 65 \<le> code c \<and> code c \<le> 90 then char_of (code c + 32) else c)"

definition newline :: char where
  "newline = CHR 0x0A"

subsection \<open>Regular expressions: the fragment of \<open>re\<close> the service uses\<close>

text \<open>
  A backtracking matcher: \<open>ms r s\<close> lists the states in which \<open>r\<close> can end when started in
  \<open>s\<close>, in the order in which Python's engine tries them (alternatives left to right,
  repetitions greedy). \<open>re.match\<close> takes the first, \<open>re.search\<close> the first of the leftmost
  start position that has one.
\<close>

datatype cls = Digit | Space | Letter | Dot | OneOf string | OneOfI string

fun in_cls :: "cls \<Rightarrow> char \<Rightarrow> bool" where
  "in_cls Digit c = is_digit c"
| "in_cls Space c = is_space c"
| "in_cls Letter c = is_letter c"
| "in_cls Dot c = (c \<noteq> newline)"
| "in_cls (OneOf cs) c = (c \<in> set cs)"
| "in_cls (OneOfI cs) c = (lower c \<in> set (map lower cs))"

datatype rx =
    Cls cls           \<comment> \<open>one character of a class\<close>
  | Rep cls nat       \<comment> \<open>\<open>c{n}\<close>\<close>
  | Many cls nat      \<comment> \<open>\<open>c{n,}\<close>, greedy (\<open>c*\<close> is \<open>Many c 0\<close>, \<open>c+\<close> is \<open>Many c 1\<close>)\<close>
  | Seq rx rx
  | Alt rx rx
  | Opt rx            \<comment> \<open>\<open>r?\<close>, greedy\<close>
  | Bnd               \<comment> \<open>\<open>\b\<close>\<close>
  | Eol               \<comment> \<open>\<open>$\<close> without MULTILINE\<close>
  | Grp nat rx        \<comment> \<open>capturing group\<close>

record mstate =
  prev :: "char option"
  rest :: string
  groups :: "(nat \<times> string) list"

definition advance :: "nat \<Rightarrow> mstate \<Rightarrow> mstate" where
  "advance j s = (if j = 0 then s
     else s\<lparr>prev := Some (rest s ! (j - 1)), rest := drop j (rest s)\<rparr>)"

definition word_opt :: "char option \<Rightarrow> bool" where
  "word_opt c = (case c of None \<Rightarrow> False | Some x \<Rightarrow> is_word x)"

definition at_boundary :: "mstate \<Rightarrow> bool" where
  "at_boundary s =
     (word_opt (prev s) \<noteq> word_opt (case rest s of [] \<Rightarrow> None | x # _ \<Rightarrow> Some x))"

fun ms :: "rx \<Rightarrow> mstate \<Rightarrow> mstate list" where
  "ms (Cls c) s =
     (case rest s of [] \<Rightarrow> [] | x # xs \<Rightarrow> if in_cls c x then [advance 1 s] else [])"
| "ms (Rep c n) s =
     (if n \<le> length (rest s) \<and> list_all (in_cls c) (take n (rest s))
      then [advance n s] else [])"
| "ms (Many c n) s =
     map (\<lambda>j. advance j s) (rev [n ..< Suc (length (takeWhile (in_cls c) (rest s)))])"
| "ms (Seq a b) s = concat (map (ms b) (ms a s))"
| "ms (Alt a b) s = ms a s @ ms b s"
| "ms (Opt a) s = ms a s @ [s]"
| "ms Bnd s = (if at_boundary s then [s] else [])"
| "ms Eol s = (if rest s = [] \<or> rest s = [newline] then [s] else [])"
| "ms (Grp n a) s =
     map (\<lambda>s'. s'\<lparr>groups :=
            (n, take (length (rest s) - length (rest s')) (rest s)) # groups s'\<rparr>) (ms a s)"

text \<open>A match object: \<open>group()\<close> and \<open>group(n)\<close>.\<close>

record match =
  group0 :: string
  group :: "nat \<Rightarrow> string option"

definition mk_match :: "mstate \<Rightarrow> mstate \<Rightarrow> match" where
  "mk_match s s' =
     \<lparr>group0 = take (length (rest s) - length (rest s')) (rest s), group = map_of (groups s')\<rparr>"

definition match_at :: "rx \<Rightarrow> char option \<Rightarrow> string \<Rightarrow> match option" where
  "match_at r p text = (let s = \<lparr>prev = p, rest = text, groups = []\<rparr> in
     case ms r s of [] \<Rightarrow> None | s' # _ \<Rightarrow> Some (mk_match s s'))"

definition re_match :: "rx \<Rightarrow> string \<Rightarrow> match option" where
  "re_match r text = match_at r None text"

fun search_at :: "rx \<Rightarrow> char option \<Rightarrow> string \<Rightarrow> match option" where
  "search_at r p [] = match_at r p []"
| "search_at r p (x # xs) =
     (case match_at r p (x # xs) of None \<Rightarrow> search_at r (Some x) xs | Some m \<Rightarrow> Some m)"

definition re_search :: "rx \<Rightarrow> string \<Rightarrow> match option" where
  "re_search r text = search_at r None text"

fun seqs :: "rx list \<Rightarrow> rx" where
  "seqs [] = Rep Dot 0"
| "seqs [r] = r"
| "seqs (r # rs) = Seq r (seqs rs)"

definition chr :: "char \<Rightarrow> rx" where
  "chr c = Cls (OneOf [c])"

definition litI :: "string \<Rightarrow> rx" where
  "litI s = seqs (map (\<lambda>c. Cls (OneOfI [c])) s)"

subsection \<open>The patterns of \<open>verify_aadhaar\<close>\<close>

text \<open>\<^verbatim>\<open>^\d{12}$\<close> (lines 102 and 138; used with \<open>re.match\<close>, which anchors the start).\<close>

definition twelve_digits_pattern :: rx where
  "twelve_digits_pattern = seqs [Rep Digit 12, Eol]"

text \<open>\<^verbatim>\<open>\b\d{4}\s\d{4}\s\d{4}\b\<close> (line 127).\<close>

definition aadhaar_number_pattern :: rx where
  "aadhaar_number_pattern =
     seqs [Bnd, Rep Digit 4, Cls Space, Rep Digit 4, Cls Space, Rep Digit 4, Bnd]"

text \<open>\<^verbatim>\<open>\b(?:\d{2}[/-]\d{2}[/-]\d{4}|\d{2}\s\d{2}\s\d{4}|\d{4}-\d{2}-\d{2})\b\<close> (line 131).\<close>

definition dob_pattern :: rx where
  "dob_pattern = seqs [Bnd,
     Alt (seqs [Rep Digit 2, Cls (OneOf ''/-''), Rep Digit 2, Cls (OneOf ''/-''), Rep Digit 4])
    (Alt (seqs [Rep Digit 2, Cls Space, Rep Digit 2, Cls Space, Rep Digit 4])
         (seqs [Rep Digit 4, chr CHR ''-'', Rep Digit 2, chr CHR ''-'', Rep Digit 2])),
     Bnd]"

text \<open>\<^verbatim>\<open>[A-Za-z]{2,}\s+[A-Za-z]{2,}(?:\s+[A-Za-z]{2,})?\<close>: two or three words.\<close>

definition name_words :: rx where
  "name_words =
     seqs [Many Letter 2, Many Space 1, Many Letter 2, Opt (Seq (Many Space 1) (Many Letter 2))]"

text \<open>
  The two alternatives of the name pattern (line 135, compiled with IGNORECASE):
  \<^verbatim>\<open>(?:DOB|Male).*\n.*\b(WORDS)\b\<close>, group 1, and \<^verbatim>\<open>\b(WORDS)\b\<close>, group 2.
\<close>

definition name_anchored :: rx where
  "name_anchored = seqs [Alt (litI ''DOB'') (litI ''Male''), Many Dot 0, chr newline,
     Many Dot 0, Bnd, Grp 1 name_words, Bnd]"

definition name_anywhere :: rx where
  "name_anywhere = seqs [Bnd, Grp 2 name_words, Bnd]"

definition name_pattern :: rx where
  "name_pattern = Alt name_anchored name_anywhere"

subsection \<open>Dates: \<open>datetime.strptime\<close>, \<open>datetime.now()\<close> and \<open>timedelta.days\<close>\<close>

record date =
  year :: int
  month :: int
  day :: int

definition is_leap :: "int \<Rightarrow> bool" where
  "is_leap y = (y mod 4 = 0 \<and> (y mod 100 \<noteq> 0 \<or> y mod 400 = 0))"

definition days_in_month :: "int \<Rightarrow> int \<Rightarrow> int" where
  "days_in_month y m = (if m = 2 then (if is_leap y then 29 else 28)
     else if m = 4 \<or> m = 6 \<or> m = 9 \<or> m = 11 then 30 else 31)"

definition days_before_year :: "int \<Rightarrow> int" where
  "days_before_year y = (let p = y - 1 in p * 365 + p div 4 - p div 100 + p div 400)"

definition days_before_month :: "int \<Rightarrow> int \<Rightarrow> int" where
  "days_before_month y m = sum_list (map (days_in_month y) [1 .. m - 1])"

definition toordinal :: "date \<Rightarrow> int" where
  "toordinal d = days_before_year (year d) + days_before_month (year d) (month d) + day d"

text \<open>A naive \<open>datetime\<close>: a calendar date and the microseconds since its midnight.\<close>

record datetime =
  dt_date :: date
  dt_micro :: int

definition micros_per_day :: int where
  "micros_per_day = 86400000000"

definition total_micros :: "datetime \<Rightarrow> int" where
  "total_micros t = toordinal (dt_date t) * micros_per_day + dt_micro t"

text \<open>\<open>(a - b).days\<close>: a \<open>timedelta\<close> is normalised so that its days are the floor.\<close>

definition timedelta_days :: "datetime \<Rightarrow> datetime \<Rightarrow> int" where
  "timedelta_days a b = (total_micros a - total_micros b) div micros_per_day"

datatype directive = Pd | Pm | PY | Plit char | Pblank

text \<open>
  The regular expression \<open>_strptime\<close> builds for a format: \<^verbatim>\<open>%d\<close> is
  \<^verbatim>\<open>(?P<d>3[0-1]|[1-2]\d|0[1-9]|[1-9]| [1-9])\<close>, \<^verbatim>\<open>%m\<close> is
  \<^verbatim>\<open>(?P<m>1[0-2]|0[1-9]|[1-9])\<close>, \<^verbatim>\<open>%Y\<close> is \<^verbatim>\<open>(?P<Y>\d\d\d\d)\<close>, white space is
  \<^verbatim>\<open>\s+\<close> and any other character stands for itself. Groups 1, 2, 3 are d, m, Y.
\<close>

definition nonzero_digit :: rx where
  "nonzero_digit = Cls (OneOf ''123456789'')"

fun directive_rx :: "directive \<Rightarrow> rx" where
  "directive_rx Pd = Grp 1
     (Alt (Seq (chr CHR ''3'') (Cls (OneOf ''01'')))
     (Alt (Seq (Cls (OneOf ''12'')) (Cls Digit))
     (Alt (Seq (chr CHR ''0'') nonzero_digit)
     (Alt nonzero_digit
          (Seq (chr CHR '' '') nonzero_digit)))))"
| "directive_rx Pm = Grp 2
     (Alt (Seq (chr CHR ''1'') (Cls (OneOf ''012'')))
     (Alt (Seq (chr CHR ''0'') nonzero_digit)
          nonzero_digit))"
| "directive_rx PY = Grp 3 (Rep Digit 4)"
| "directive_rx (Plit c) = chr c"
| "directive_rx Pblank = Many Space 1"

definition format_regex :: "directive list \<Rightarrow> rx" where
  "format_regex fmt = seqs (map directive_rx fmt)"

text \<open>\<open>int(s)\<close> on a group of the format's regular expression (white space is skipped).\<close>

definition py_int :: "string \<Rightarrow> int" where
  "py_int s = foldl (\<lambda>a c. 10 * a + (int (code c) - 48)) 0 (filter is_digit s)"

definition group_int :: "(nat \<times> string) list \<Rightarrow> nat \<Rightarrow> int \<Rightarrow> int" where
  "group_int g n dflt = (case map_of g n of None \<Rightarrow> dflt | Some v \<Rightarrow> py_int v)"

definition valid_date :: "int \<Rightarrow> int \<Rightarrow> int \<Rightarrow> bool" where
  "valid_date y m d =
     (1 \<le> y \<and> y \<le> 9999 \<and> 1 \<le> m \<and> m \<le> 12 \<and> 1 \<le> d \<and> d \<le> days_in_month y m)"

text \<open>
  \<open>datetime.strptime(s, fmt)\<close>; \<open>None\<close> is the \<open>ValueError\<close> (no match of the format,
  unconverted data, or a day or year the calendar does not have).
\<close>

definition strptime :: "string \<Rightarrow> directive list \<Rightarrow> datetime option" where
  "strptime s fmt =
     (case ms (format_regex fmt) \<lparr>prev = None, rest = s, groups = []\<rparr> of
        [] \<Rightarrow> None
      | found # _ \<Rightarrow>
          if rest found \<noteq> [] then None
          else (let y = group_int (groups found) 3 1900;
                    m = group_int (groups found) 2 1;
                    d = group_int (groups found) 1 1
                in if valid_date y m d
                   then Some \<lparr>dt_date = \<lparr>year = y, month = m, day = d\<rparr>, dt_micro = 0\<rparr>
                   else None))"

text \<open>The four formats of the service: \<^verbatim>\<open>%d/%m/%Y\<close>, \<^verbatim>\<open>%d-%m-%Y\<close>, \<^verbatim>\<open>%Y-%m-%d\<close>, \<^verbatim>\<open>%d %m %Y\<close>.\<close>

definition fmt_slash :: "directive list" where
  "fmt_slash = [Pd, Plit CHR ''/'', Pm, Plit CHR ''/'', PY]"

definition fmt_dash :: "directive list" where
  "fmt_dash = [Pd, Plit CHR ''-'', Pm, Plit CHR ''-'', PY]"

definition fmt_iso :: "directive list" where
  "fmt_iso = [PY, Plit CHR ''-'', Pm, Plit CHR ''-'', Pd]"

definition fmt_blank :: "directive list" where
  "fmt_blank = [Pd, Pblank, Pm, Pblank, PY]"

subsection \<open>Python values: truthiness, slices, \<open>str.strip\<close>, \<open>dict.get\<close>\<close>

text \<open>A value that is \<open>None\<close> or a \<open>str\<close> is truthy when it is a non-empty string.\<close>

definition truthy :: "string option \<Rightarrow> bool" where
  "truthy v = (case v of None \<Rightarrow> False | Some s \<Rightarrow> s \<noteq> [])"

text \<open>\<open>s[-4:]\<close>: the last four characters, or all of \<open>s\<close> when it is shorter.\<close>

definition last4 :: "string \<Rightarrow> string" where
  "last4 s = drop (length s - 4) s"

definition strip :: "string \<Rightarrow> string" where
  "strip s = rev (dropWhile is_space (rev (dropWhile is_space s)))"

text \<open>\<open>a or b\<close> on such values.\<close>

definition py_or :: "string option \<Rightarrow> string option \<Rightarrow> string option" where
  "py_or a b = (if truthy a then a else b)"

text \<open>The decoded code is a \<open>dict\<close> from strings to strings; \<open>d.get(k)\<close> is \<open>map_of d k\<close>.\<close>

type_synonym qr_dict = "(string \<times> string) list"

subsection \<open>The result record and the external libraries\<close>

record aadhaar_data =
  aadhaar_number :: "string option"
  dob :: "string option"
  name :: "string option"
  is_18_or_older :: bool
  valid :: bool
  error :: "string option"

text \<open>The dictionary of lines 63 to 70.\<close>

definition aadhaar_data0 :: aadhaar_data where
  "aadhaar_data0 = \<lparr>aadhaar_number = None, dob = None, name = None,
     is_18_or_older = False, valid = False, error = None\<rparr>"

text \<open>
  A raised exception with its message \<open>str(e)\<close>: an instance of \<open>Exception\<close>, which the
  clauses \<open>except Exception\<close> of lines 55, 93 and 168 catch, or a \<open>BaseException\<close> that is
  not one, which they let through.
\<close>

datatype exn = Exception string | BaseException string

text \<open>
  The libraries, on file bytes \<open>'b\<close> and images \<open>'i\<close>. \<open>Inl e\<close> is a raised exception.
  \<open>pyzbar_decode\<close> gives, for each code found, its payload decoded as UTF-8
  (\<open>.data.decode('utf-8')\<close>) or the decoding error. \<open>now\<close> is the clock read by
  \<open>datetime.now()\<close>.
\<close>

record ('b, 'i) engines =
  convert_from_bytes :: "'b \<Rightarrow> exn + 'i list"
  image_open :: "'b \<Rightarrow> exn + 'i"
  preprocess_image :: "'i \<Rightarrow> exn + 'i"
  pyzbar_decode :: "'i \<Rightarrow> exn + (exn + string) list"
  secure_qr_decode :: "string \<Rightarrow> exn + qr_dict"
  image_to_string :: "'i \<Rightarrow> exn + string"
  now :: datetime

text \<open>The library calls a run makes, in order.\<close>

datatype call = Rasterize | OpenImage | Preprocess | ScanCode | DecodeCode | Recognize

text \<open>A computation returns a value or raises, and leaves the calls it made.\<close>

datatype 'a res = Ret 'a | Raise exn

text \<open>\<open>except Exception: return v\<close> around a statement that raised \<open>e\<close>.\<close>

definition except_Exception :: "exn \<Rightarrow> 'a \<Rightarrow> 'a res" where
  "except_Exception e v = (case e of Exception m \<Rightarrow> Ret v | BaseException m \<Rightarrow> Raise e)"

subsection \<open>\<open>extract_text_from_file\<close> (lines 22 to 38)\<close>

fun ocr_pages :: "('b, 'i) engines \<Rightarrow> 'i list \<Rightarrow> string \<Rightarrow> string res \<times> call list" where
  "ocr_pages E [] text = (Ret text, [])"
| "ocr_pages E (img # images) text =
     (case preprocess_image E img of
        Inl e \<Rightarrow> (Raise e, [Preprocess])
      | Inr img' \<Rightarrow>
         (case image_to_string E img' of
            Inl e \<Rightarrow> (Raise e, [Preprocess, Recognize])
          | Inr t \<Rightarrow>
             (case ocr_pages E images (text @ t) of
                (r, calls) \<Rightarrow> (r, [Preprocess, Recognize] @ calls))))"

definition starts_with :: "string \<Rightarrow> string \<Rightarrow> bool" where
  "starts_with p s = (take (length p) s = p)"

definition extract_text_from_file ::
  "('b, 'i) engines \<Rightarrow> 'b \<Rightarrow> string \<Rightarrow> string res \<times> call list" where
  "extract_text_from_file E file_bytes content_type =
     (if content_type = ''application/pdf'' then
        (case convert_from_bytes E file_bytes of
           Inl e \<Rightarrow> (Raise e, [Rasterize])
         | Inr images \<Rightarrow>
            (case ocr_pages E images [] of (r, calls) \<Rightarrow> (r, Rasterize # calls)))
      else if starts_with ''image/'' content_type then
        (case image_open E file_bytes of
           Inl e \<Rightarrow> (Raise e, [OpenImage])
         | Inr img \<Rightarrow>
            (case ocr_pages E [img] [] of (r, calls) \<Rightarrow> (r, OpenImage # calls)))
      else (Raise (Exception ''Unsupported file type''), []))"

subsection \<open>\<open>extract_qr_code\<close> (lines 40 to 57)\<close>

text \<open>Every \<open>Exception\<close> inside is caught at line 55 and turned into \<open>None\<close>.\<close>

definition extract_qr_code ::
  "('b, 'i) engines \<Rightarrow> 'i \<Rightarrow> string option res \<times> call list" where
  "extract_qr_code E img =
     (case preprocess_image E img of
        Inl e \<Rightarrow> (except_Exception e None, [Preprocess])
      | Inr qr_image \<Rightarrow>
         (case pyzbar_decode E qr_image of
            Inl e \<Rightarrow> (except_Exception e None, [Preprocess, ScanCode])
          | Inr qr_codes \<Rightarrow>
             (case qr_codes of
                [] \<Rightarrow> (Ret None, [Preprocess, ScanCode])
              | c # _ \<Rightarrow>
                 (case c of
                    Inl e \<Rightarrow> (except_Exception e None, [Preprocess, ScanCode])
                  | Inr qr_data \<Rightarrow> (Ret (Some qr_data), [Preprocess, ScanCode])))))"

subsection \<open>\<open>verify_aadhaar\<close> (lines 59 to 171)\<close>

text \<open>
  Lines 78 to 81: the loop over the pages of a PDF stops at the first page whose code
  string is truthy; \<open>q\<close> is \<open>qr_code_string\<close> before the remaining pages.
\<close>

fun scan_pages ::
  "('b, 'i) engines \<Rightarrow> 'i list \<Rightarrow> string option \<Rightarrow> string option res \<times> call list" where
  "scan_pages E [] q = (Ret q, [])"
| "scan_pages E (img # images) q =
     (case extract_qr_code E img of
        (Raise e, calls) \<Rightarrow> (Raise e, calls)
      | (Ret q', calls) \<Rightarrow>
          if truthy q' then (Ret q', calls)
          else (case scan_pages E images q' of (r, calls') \<Rightarrow> (r, calls @ calls')))"

text \<open>Lines 76 to 86: \<open>qr_code_string\<close>, or the exception raised on the way.\<close>

definition find_qr_code_string ::
  "('b, 'i) engines \<Rightarrow> 'b \<Rightarrow> string \<Rightarrow> string option res \<times> call list" where
  "find_qr_code_string E file_bytes content_type =
     (if content_type = ''application/pdf'' then
        (case convert_from_bytes E file_bytes of
           Inl e \<Rightarrow> (Raise e, [Rasterize])
         | Inr images \<Rightarrow>
            (case scan_pages E images None of (r, calls) \<Rightarrow> (r, Rasterize # calls)))
      else if starts_with ''image/'' content_type then
        (case image_open E file_bytes of
           Inl e \<Rightarrow> (Raise e, [OpenImage])
         | Inr img \<Rightarrow>
            (case extract_qr_code E img of (r, calls) \<Rightarrow> (r, OpenImage # calls)))
      else (Raise (Exception ''Unsupported file type''), []))"

text \<open>
  How the \<open>try\<close> body ends: it returns the record, or it raises with the record as
  mutated so far. After the structured-code block control may also go on to line 122.
\<close>

datatype outcome = Returns aadhaar_data | Raises exn aadhaar_data

datatype flow = Done outcome | Continues aadhaar_data

text \<open>\<open>aadhaar_number and re.match(r'^\d{12}$', aadhaar_number)\<close> (lines 102 and 138).\<close>

definition number_ok :: "string option \<Rightarrow> bool" where
  "number_ok v = (case v of None \<Rightarrow> False
     | Some s \<Rightarrow> s \<noteq> [] \<and> re_match twelve_digits_pattern s \<noteq> None)"

text \<open>\<open>(datetime.now() - dob_date).days // 365\<close> (lines 110 and 151).\<close>

definition age :: "datetime \<Rightarrow> datetime \<Rightarrow> int" where
  "age now_t dob_date = timedelta_days now_t dob_date div 365"

text \<open>\<open>f"XXXX XXXX {s[-4:]}"\<close> (lines 119 and 164).\<close>

definition mask :: "string \<Rightarrow> string" where
  "mask s = ''XXXX XXXX '' @ last4 s"

text \<open>
  Lines 97 to 120, for a decoded, non-empty dictionary. Subscripting the record's
  \<open>aadhaar_number\<close> at line 119 raises \<open>TypeError\<close> when it is \<open>None\<close>.
\<close>

definition qr_fields :: "datetime \<Rightarrow> qr_dict \<Rightarrow> aadhaar_data \<Rightarrow> flow" where
  "qr_fields now_t qr_data d =
     (let aadhaar_number' = map_of qr_data ''aadhaar_number'';
          dob' = map_of qr_data ''dob'';
          name' = map_of qr_data ''name'';
          d1 = (if number_ok aadhaar_number'
                then d\<lparr>aadhaar_number := aadhaar_number', valid := True\<rparr> else d);
          d2 = (case dob' of
                  None \<Rightarrow> d1
                | Some s \<Rightarrow>
                    if s = [] then d1
                    else (case strptime s fmt_dash of
                            Some dob_date \<Rightarrow>
                              d1\<lparr>dob := dob', is_18_or_older := (18 \<le> age now_t dob_date)\<rparr>
                          | None \<Rightarrow> d1\<lparr>dob := None, is_18_or_older := False\<rparr>));
          d3 = d2\<lparr>name := name'\<rparr>
      in if valid d3 \<and> truthy (dob d3) \<and> truthy (name d3) then
           (case aadhaar_number d3 of
              None \<Rightarrow> Done (Raises (Exception ''TypeError: NoneType object is not subscriptable'') d3)
            | Some s \<Rightarrow> Done (Returns (d3\<lparr>aadhaar_number := Some (mask s)\<rparr>)))
         else Continues d3)"

text \<open>
  Lines 88 to 120: decoding the code string; a decoder failure that is an \<open>Exception\<close>
  is caught at line 93 and leaves \<open>qr_data = None\<close>.
\<close>

definition qr_tier ::
  "('b, 'i) engines \<Rightarrow> string option \<Rightarrow> aadhaar_data \<Rightarrow> flow \<times> call list" where
  "qr_tier E qr_code_string d =
     (case qr_code_string of
        None \<Rightarrow> (Continues d, [])
      | Some s \<Rightarrow>
          if s = [] then (Continues d, [])
          else (case secure_qr_decode E s of
                  Inl e \<Rightarrow>
                    (case e of
                       Exception m \<Rightarrow> (Continues d, [DecodeCode])
                     | BaseException m \<Rightarrow> (Done (Raises e d), [DecodeCode]))
                | Inr qr_data \<Rightarrow>
                    if qr_data = [] then (Continues d, [DecodeCode])
                    else (qr_fields (now E) qr_data d, [DecodeCode])))"

text \<open>The provisional fields of lines 127 to 136.\<close>

record fields =
  number_raw :: "string option"
  dob_raw :: "string option"
  name_raw :: "string option"

text \<open>
  Line 136: \<open>(name_match.group(1) or name_match.group(2)).strip()\<close>; on \<open>None\<close> the
  attribute access raises \<open>AttributeError\<close>.
\<close>

definition name_of_match :: "match option \<Rightarrow> string option res" where
  "name_of_match name_match =
     (case name_match of
        None \<Rightarrow> Ret None
      | Some m \<Rightarrow>
         (case py_or (group m 1) (group m 2) of
            None \<Rightarrow> Raise (Exception ''AttributeError: NoneType object has no attribute strip'')
          | Some s \<Rightarrow> Ret (Some (strip s))))"

definition field_extractor :: "string \<Rightarrow> fields res" where
  "field_extractor text =
     (let aadhaar_number_match = re_search aadhaar_number_pattern text;
          aadhaar_number' = map_option (\<lambda>m. filter (\<lambda>c. c \<noteq> CHR '' '') (group0 m))
                              aadhaar_number_match;
          dob_match = re_search dob_pattern text;
          dob' = map_option group0 dob_match;
          name_match = re_search name_pattern text
      in case name_of_match name_match of
           Raise e \<Rightarrow> Raise e
         | Ret name' \<Rightarrow> Ret \<lparr>number_raw = aadhaar_number', dob_raw = dob', name_raw = name'\<rparr>)"

text \<open>Lines 144 to 149: the format is chosen by the separator.\<close>

definition parse_dob :: "string \<Rightarrow> datetime option" where
  "parse_dob s =
     (if CHR ''/'' \<in> set s then strptime s fmt_slash
      else if CHR ''-'' \<in> set s then
        (if length (takeWhile (\<lambda>c. c \<noteq> CHR ''-'') s) = 2 then strptime s fmt_dash
         else strptime s fmt_iso)
      else strptime s fmt_blank)"

text \<open>Lines 138 to 166, on the record as the structured tier left it.\<close>

definition result_normalizer :: "datetime \<Rightarrow> fields \<Rightarrow> aadhaar_data \<Rightarrow> aadhaar_data" where
  "result_normalizer now_t f d =
     (let d1 = (if number_ok (number_raw f)
                then d\<lparr>aadhaar_number := number_raw f, valid := True\<rparr> else d);
          d2 = (case dob_raw f of
                  None \<Rightarrow> d1
                | Some s \<Rightarrow>
                    if s = [] then d1
                    else (case parse_dob s of
                            Some dob_date \<Rightarrow>
                              d1\<lparr>dob := dob_raw f, is_18_or_older := (18 \<le> age now_t dob_date)\<rparr>
                          | None \<Rightarrow> d1\<lparr>dob := None, is_18_or_older := False\<rparr>));
          d3 = d2\<lparr>name := name_raw f\<rparr>;
          d4 = (if \<not> valid d3
                then d3\<lparr>error := Some ''Could not extract valid Aadhaar details''\<rparr> else d3)
      in case aadhaar_number d4 of
           None \<Rightarrow> d4
         | Some s \<Rightarrow> if s = [] then d4 else d4\<lparr>aadhaar_number := Some (mask s)\<rparr>)"

text \<open>Lines 126 to 166 on the recognized text.\<close>

definition ocr_fields :: "datetime \<Rightarrow> string \<Rightarrow> aadhaar_data \<Rightarrow> outcome" where
  "ocr_fields now_t text d =
     (case field_extractor text of
        Raise e \<Rightarrow> Raises e d
      | Ret f \<Rightarrow> Returns (result_normalizer now_t f d))"

text \<open>The body of the \<open>try\<close> statement, lines 73 to 166.\<close>

definition try_body :: "('b, 'i) engines \<Rightarrow> 'b \<Rightarrow> string \<Rightarrow> outcome \<times> call list" where
  "try_body E file_bytes content_type =
     (case find_qr_code_string E file_bytes content_type of
        (Raise e, calls) \<Rightarrow> (Raises e aadhaar_data0, calls)
      | (Ret qr_code_string, calls) \<Rightarrow>
         (case qr_tier E qr_code_string aadhaar_data0 of
            (Done out, calls') \<Rightarrow> (out, calls @ calls')
          | (Continues d, calls') \<Rightarrow>
             (case extract_text_from_file E file_bytes content_type of
                (Raise e, calls'') \<Rightarrow> (Raises e d, calls @ calls' @ calls'')
              | (Ret text, calls'') \<Rightarrow> (ocr_fields (now E) text d, calls @ calls' @ calls''))))"

text \<open>
  The whole function: \<open>except Exception as e\<close> (lines 168 to 171) stores \<open>str(e)\<close>, clears
  \<open>valid\<close> and returns the record; an exception that is not an \<open>Exception\<close> leaves the
  function. The result says whether the call returned or raised.
\<close>

definition verify_aadhaar ::
  "('b, 'i) engines \<Rightarrow> 'b \<Rightarrow> string \<Rightarrow> aadhaar_data res \<times> call list" where
  "verify_aadhaar E file_bytes content_type =
     (case try_body E file_bytes content_type of
        (Returns d, calls) \<Rightarrow> (Ret d, calls)
      | (Raises e d, calls) \<Rightarrow>
         (case e of
            Exception m \<Rightarrow> (Ret (d\<lparr>error := Some m, valid := False\<rparr>), calls)
          | BaseException m \<Rightarrow> (Raise e, calls)))"

subsection \<open>Notions used in the statements and proofs\<close>

text \<open>The least number of characters a pattern consumes.\<close>

fun min_len :: "rx \<Rightarrow> nat" where
  "min_len (Cls c) = 1"
| "min_len (Rep c n) = n"
| "min_len (Many c n) = n"
| "min_len (Seq a b) = min_len a + min_len b"
| "min_len (Alt a b) = min (min_len a) (min_len b)"
| "min_len (Opt a) = 0"
| "min_len Bnd = 0"
| "min_len Eol = 0"
| "min_len (Grp n a) = min_len a"

text \<open>Every character class of the pattern lies inside \<open>P\<close>.\<close>

fun accepts_only :: "(char \<Rightarrow> bool) \<Rightarrow> rx \<Rightarrow> bool" where
  "accepts_only P (Cls c) = (\<forall>x. in_cls c x \<longrightarrow> P x)"
| "accepts_only P (Rep c n) = (\<forall>x. in_cls c x \<longrightarrow> P x)"
| "accepts_only P (Many c n) = (\<forall>x. in_cls c x \<longrightarrow> P x)"
| "accepts_only P (Seq a b) = (accepts_only P a \<and> accepts_only P b)"
| "accepts_only P (Alt a b) = (accepts_only P a \<and> accepts_only P b)"
| "accepts_only P (Opt a) = accepts_only P a"
| "accepts_only P Bnd = True"
| "accepts_only P Eol = True"
| "accepts_only P (Grp n a) = accepts_only P a"

text \<open>From \<open>s\<close> to \<open>s'\<close> the pattern \<open>r\<close> has consumed a prefix of the remaining text.\<close>

definition consumed :: "(char \<Rightarrow> bool) \<Rightarrow> rx \<Rightarrow> mstate \<Rightarrow> mstate \<Rightarrow> bool" where
  "consumed P r s s' = (\<exists>k. k \<le> length (rest s) \<and> rest s' = drop k (rest s) \<and> min_len r \<le> k
      \<and> (accepts_only P r \<longrightarrow> list_all P (take k (rest s))))"

text \<open>The record a block of the \<open>try\<close> body leaves behind.\<close>

fun outcome_data :: "outcome \<Rightarrow> aadhaar_data" where
  "outcome_data (Returns d) = d"
| "outcome_data (Raises e d) = d"

fun flow_data :: "flow \<Rightarrow> aadhaar_data" where
  "flow_data (Done out) = outcome_data out"
| "flow_data (Continues d) = d"

text \<open>The libraries raise nothing but instances of \<open>Exception\<close>.\<close>

definition is_Exception :: "exn \<Rightarrow> bool" where
  "is_Exception e = (case e of Exception m \<Rightarrow> True | BaseException m \<Rightarrow> False)"



subsection \<open>Concrete runs\<close>

text \<open>The clock at noon on 4 November 2026.\<close>

definition noon :: datetime where
  "noon = \<lparr>dt_date = \<lparr>year = 2026, month = 11, day = 4\<rparr>, dt_micro = 43200000000\<rparr>"

text \<open>
  A two-page document (pages 0 and 1) with a code on page 1 only; the decoder yields
  \<open>qr\<close>, recognition yields \<open>ocr\<close> on every page.
\<close>

definition card :: "qr_dict \<Rightarrow> exn + string \<Rightarrow> (unit, nat) engines" where
  "card qr ocr = \<lparr>convert_from_bytes = (\<lambda>_. Inr [0, 1]), image_open = (\<lambda>_. Inr 1),
     preprocess_image = (\<lambda>i. Inr i),
     pyzbar_decode = (\<lambda>i. Inr (if i = 1 then [Inr ''QR''] else [])),
     secure_qr_decode = (\<lambda>_. Inr qr),
     image_to_string = (\<lambda>_. ocr), now = noon\<rparr>"

text \<open>A single image without a code, on which recognition yields or raises \<open>ocr\<close>.\<close>

definition plain_scan :: "exn + string \<Rightarrow> (unit, nat) engines" where
  "plain_scan ocr = \<lparr>convert_from_bytes = (\<lambda>_. Inr [0]), image_open = (\<lambda>_. Inr 0),
     preprocess_image = (\<lambda>i. Inr i), pyzbar_decode = (\<lambda>_. Inr []),
     secure_qr_decode = (\<lambda>_. Inl (Exception ''no code'')),
     image_to_string = (\<lambda>_. ocr), now = noon\<rparr>"

definition jane_qr :: qr_dict where
  "jane_qr = [(''aadhaar_number'', ''123456789012''), (''dob'', ''15-06-2000''),
     (''name'', ''Jane Doe'')]"

text \<open>Codes that decode to an incomplete dictionary.\<close>

definition qr_without_name :: qr_dict where
  "qr_without_name = [(''aadhaar_number'', ''123456789012''), (''dob'', ''15-06-2000'')]"

definition qr_number_only :: qr_dict where
  "qr_number_only = [(''aadhaar_number'', ''123456789012'')]"

definition card_text :: string where
  "card_text = ''Government of India'' @ [newline] @ ''DOB: 15/06/2000'' @ [newline]
     @ ''Jane Doe'' @ [newline] @ ''1234 5678 9012''"

section \<open>Properties\<close>

subsection \<open>Library calls of the structured-code tier\<close>

lemma extract_qr_code_calls: "Recognize \<notin> set (snd (extract_qr_code E img))"
  by (simp add: extract_qr_code_def split: sum.splits list.splits)

lemma scan_pages_calls: "Recognize \<notin> set (snd (scan_pages E images q))"
proof (induction images arbitrary: q)
  case Nil
  then show ?case by simp
next
  case (Cons img images)
  obtain r calls where x: "extract_qr_code E img = (r, calls)"
    by (cases "extract_qr_code E img")
  then have c: "Recognize \<notin> set calls"
    using extract_qr_code_calls [of E img] by simp
  show ?case
  proof (cases r)
    case (Raise e)
    with x c show ?thesis by simp
  next
    case (Ret q')
    obtain r' calls' where y: "scan_pages E images q' = (r', calls')"
      by (cases "scan_pages E images q'")
    then have "Recognize \<notin> set calls'"
      using Cons.IH [of q'] by simp
    with c x y Ret show ?thesis by simp
  qed
qed

lemma scan_pages_callsD: "scan_pages E images q = (r, calls) \<Longrightarrow> Recognize \<notin> set calls"
  using scan_pages_calls [of E images q] by simp

lemma extract_qr_code_callsD: "extract_qr_code E img = (r, calls) \<Longrightarrow> Recognize \<notin> set calls"
  using extract_qr_code_calls [of E img] by simp

lemma find_qr_code_string_calls:
  "Recognize \<notin> set (snd (find_qr_code_string E file_bytes content_type))"
  by (auto simp: find_qr_code_string_def split: sum.splits prod.splits
      dest: scan_pages_callsD extract_qr_code_callsD)

subsection \<open>The checks on the structured-code fields\<close>

lemma number_ok_digits: "length a = 12 \<Longrightarrow> list_all is_digit a \<Longrightarrow> number_ok (Some a)"
  by (auto simp: number_ok_def re_match_def match_at_def twelve_digits_pattern_def advance_def
      list_all_iff dest: in_set_takeD)

lemma strptime_nonempty: "strptime s fmt_dash = Some t \<Longrightarrow> s \<noteq> []"
  by (auto simp: strptime_def fmt_dash_def format_regex_def chr_def nonzero_digit_def)

lemma card_code_string:
  "find_qr_code_string (card qr ocr) () ''application/pdf'' =
     (Ret (Some ''QR''), [Rasterize, Preprocess, ScanCode, Preprocess, ScanCode])"
  by (simp add: find_qr_code_string_def card_def extract_qr_code_def truthy_def)

lemma jane_dob: "strptime ''15-06-2000'' fmt_dash =
    Some \<lparr>dt_date = \<lparr>year = 2000, month = 6, day = 15\<rparr>, dt_micro = 0\<rparr>"
  by code_simp

lemma jane_adult: "18 \<le> age noon \<lparr>dt_date = \<lparr>year = 2000, month = 6, day = 15\<rparr>, dt_micro = 0\<rparr>"
  by code_simp

subsection \<open>C3: the short circuit\<close>

text \<open>
  C3. When the code string found by the structured-code tier decodes to a dictionary
  whose \<open>aadhaar_number\<close> is twelve digits, whose \<open>dob\<close> parses as DD-MM-YYYY and whose
  \<open>name\<close> is non-empty, \<open>verify_aadhaar\<close> returns right after masking the number: the record
  holds the masked number, the date and the name of the code, \<open>valid\<close> is true, \<open>error\<close> is
  \<open>None\<close>, the only library call after the scan is the decoder's, and the recognition
  engine is not called.
\<close>

theorem short_circuit:
  assumes "find_qr_code_string E file_bytes content_type = (Ret (Some s), calls)"
    and "s \<noteq> []"
    and "secure_qr_decode E s = Inr qr_data"
    and "map_of qr_data ''aadhaar_number'' = Some a"
    and "length a = 12" and "list_all is_digit a"
    and "map_of qr_data ''dob'' = Some b"
    and "strptime b fmt_dash = Some dob_date"
    and "map_of qr_data ''name'' = Some n" and "n \<noteq> []"
  shows "verify_aadhaar E file_bytes content_type =
      (Ret \<lparr>aadhaar_number = Some (''XXXX XXXX '' @ drop 8 a), dob = Some b, name = Some n,
            is_18_or_older = (18 \<le> age (now E) dob_date), valid = True, error = None\<rparr>,
       calls @ [DecodeCode])
    \<and> Recognize \<notin> set (snd (verify_aadhaar E file_bytes content_type))"
proof -
  have ok: "number_ok (Some a)"
    using assms(5,6) by (rule number_ok_digits)
  have ne: "b \<noteq> []"
    using assms(8) by (rule strptime_nonempty)
  have q: "qr_data \<noteq> []"
    using assms(4) by auto
  have f: "qr_fields (now E) qr_data aadhaar_data0 =
      Done (Returns \<lparr>aadhaar_number = Some (''XXXX XXXX '' @ drop 8 a), dob = Some b, name = Some n,
            is_18_or_older = (18 \<le> age (now E) dob_date), valid = True, error = None\<rparr>)"
    using assms(4,5,7,8,9,10) ok ne
    by (simp add: qr_fields_def aadhaar_data0_def truthy_def mask_def last4_def)
  have v: "verify_aadhaar E file_bytes content_type =
      (Ret \<lparr>aadhaar_number = Some (''XXXX XXXX '' @ drop 8 a), dob = Some b, name = Some n,
            is_18_or_older = (18 \<le> age (now E) dob_date), valid = True, error = None\<rparr>,
       calls @ [DecodeCode])"
    using assms(1,2,3) q f by (simp add: verify_aadhaar_def try_body_def qr_tier_def)
  have "Recognize \<notin> set calls"
    using find_qr_code_string_calls [of E file_bytes content_type] assms(1) by simp
  with v show ?thesis by simp
qed

text \<open>The scenario of the specification: the code of Jane Doe on page 1 of a document.\<close>

theorem short_circuit_witness:
  "find_qr_code_string (card jane_qr (Inr card_text)) () ''application/pdf'' =
     (Ret (Some ''QR''), [Rasterize, Preprocess, ScanCode, Preprocess, ScanCode])
   \<and> secure_qr_decode (card jane_qr (Inr card_text)) ''QR'' = Inr jane_qr
   \<and> strptime ''15-06-2000'' fmt_dash =
       Some \<lparr>dt_date = \<lparr>year = 2000, month = 6, day = 15\<rparr>, dt_micro = 0\<rparr>
   \<and> verify_aadhaar (card jane_qr (Inr card_text)) () ''application/pdf'' =
      (Ret \<lparr>aadhaar_number = Some ''XXXX XXXX 9012'', dob = Some ''15-06-2000'',
            name = Some ''Jane Doe'', is_18_or_older = True, valid = True, error = None\<rparr>,
       [Rasterize, Preprocess, ScanCode, Preprocess, ScanCode, DecodeCode])
   \<and> Recognize \<notin> set (snd (verify_aadhaar (card jane_qr (Inr card_text)) () ''application/pdf''))"
proof -
  have d: "secure_qr_decode (card jane_qr (Inr card_text)) ''QR'' = Inr jane_qr"
    by (simp add: card_def)
  have n: "now (card jane_qr (Inr card_text)) = noon"
    by (simp add: card_def)
  have g: "list_all is_digit ''123456789012''"
    by (simp add: is_digit_def code_def)
  show ?thesis
    using short_circuit [OF card_code_string _ d _ _ g _ jane_dob, of "''Jane Doe''"]
      card_code_string d jane_dob jane_adult n
    by (simp add: jane_qr_def)
qed

subsection \<open>The error field along the paths of \<open>verify_aadhaar\<close>\<close>

lemma qr_fields_error: "error (flow_data (qr_fields now_t qr_data d)) = error d"
  by (simp add: qr_fields_def Let_def split: option.splits)

lemma qr_fields_returns: "qr_fields now_t qr_data d = Done (Returns d') \<Longrightarrow> valid d'"
  by (auto simp: qr_fields_def Let_def split: option.splits if_splits)

lemma qr_tier_error: "error (flow_data (fst (qr_tier E q d))) = error d"
  using qr_fields_error by (simp add: qr_tier_def split: option.splits sum.splits exn.splits)

lemma qr_tier_returns: "qr_tier E q d = (Done (Returns d'), calls) \<Longrightarrow> valid d'"
  by (auto simp: qr_tier_def split: option.splits sum.splits exn.splits if_splits
      dest: qr_fields_returns)

lemma result_normalizer_error:
  assumes "error d = None"
  shows "error (result_normalizer now_t f d) =
    (if valid (result_normalizer now_t f d) then None
     else Some ''Could not extract valid Aadhaar details'')"
  using assms by (simp add: result_normalizer_def Let_def split: option.splits)

lemma try_body_returns:
  assumes "try_body E file_bytes content_type = (Returns d, calls)"
  shows "error d = (if valid d then None else Some ''Could not extract valid Aadhaar details'')"
proof -
  obtain r c where f: "find_qr_code_string E file_bytes content_type = (r, c)"
    by (cases "find_qr_code_string E file_bytes content_type")
  show ?thesis
  proof (cases r)
    case (Raise e)
    with f assms show ?thesis by (simp add: try_body_def)
  next
    case (Ret q)
    obtain fl c' where t: "qr_tier E q aadhaar_data0 = (fl, c')"
      by (cases "qr_tier E q aadhaar_data0")
    have e: "error (flow_data fl) = None"
      using qr_tier_error [of E q aadhaar_data0] t by (simp add: aadhaar_data0_def)
    show ?thesis
    proof (cases fl)
      case (Done out)
      with f Ret t assms have "out = Returns d"
        by (simp add: try_body_def)
      with Done t e qr_tier_returns [of E q aadhaar_data0 d c'] show ?thesis
        by simp
    next
      case (Continues d0)
      with e have e0: "error d0 = None" by simp
      obtain x c'' where o: "extract_text_from_file E file_bytes content_type = (x, c'')"
        by (cases "extract_text_from_file E file_bytes content_type")
      show ?thesis
      proof (cases x)
        case (Raise e')
        with f Ret t Continues o assms show ?thesis by (simp add: try_body_def)
      next
        case (Ret recognized)
        with f \<open>r = Ret q\<close> t Continues o assms
        have "ocr_fields (now E) recognized d0 = Returns d"
          by (simp add: try_body_def)
        then obtain fs where "d = result_normalizer (now E) fs d0"
          by (auto simp: ocr_fields_def split: res.splits)
        with e0 show ?thesis
          using result_normalizer_error [of d0 "now E" fs] by simp
      qed
    qed
  qed
qed

subsection \<open>C10: \<open>error\<close> is set exactly when \<open>valid\<close> is false\<close>

text \<open>
  C10. Whenever \<open>verify_aadhaar\<close> returns a record, its \<open>error\<close> is not \<open>None\<close> if and only
  if its \<open>valid\<close> is false. When the \<open>try\<close> body returns (short circuit or fallback),
  \<open>error\<close> is \<open>None\<close> for a valid record and the fixed message otherwise; when it raises an
  \<open>Exception\<close>, \<open>error\<close> is the exception's message and \<open>valid\<close> is false. The only other
  way out is an exception that is not an \<open>Exception\<close>, with which no record is returned.
\<close>

theorem error_iff_invalid:
  "case fst (verify_aadhaar E file_bytes content_type) of
     Ret d \<Rightarrow>
       (error d \<noteq> None) = (\<not> valid d)
       \<and> (case fst (try_body E file_bytes content_type) of
            Returns d' \<Rightarrow> d = d'
              \<and> error d = (if valid d then None
                            else Some ''Could not extract valid Aadhaar details'')
          | Raises e d' \<Rightarrow> e = Exception (case error d of None \<Rightarrow> [] | Some m \<Rightarrow> m)
              \<and> error d \<noteq> None \<and> \<not> valid d)
   | Raise e \<Rightarrow> \<not> is_Exception e"
proof -
  obtain out calls where t: "try_body E file_bytes content_type = (out, calls)"
    by (cases "try_body E file_bytes content_type")
  show ?thesis
  proof (cases out)
    case (Returns d)
    with t try_body_returns [of E file_bytes content_type d calls] show ?thesis
      by (simp add: verify_aadhaar_def)
  next
    case (Raises e d)
    with t show ?thesis
      by (cases e) (simp_all add: verify_aadhaar_def is_Exception_def)
  qed
qed

subsection \<open>What the \<open>try\<close> body can raise\<close>










subsection \<open>C6: which exceptions leave \<open>verify_aadhaar\<close>\<close>






subsection \<open>C4: content types the function does and does not accept\<close>

lemma try_body_first_call:
  assumes "snd (find_qr_code_string E file_bytes content_type) = c # calls"
  shows "\<exists>calls'. snd (verify_aadhaar E file_bytes content_type) = c # calls'"
proof -
  obtain r where f: "find_qr_code_string E file_bytes content_type = (r, c # calls)"
    using assms by (cases "find_qr_code_string E file_bytes content_type") simp
  obtain out cs where t: "try_body E file_bytes content_type = (out, cs)"
    by (cases "try_body E file_bytes content_type")
  have "\<exists>calls'. cs = c # calls'"
    using f t
    by (auto simp: try_body_def split: res.splits prod.splits flow.splits)
  with t show ?thesis
    by (auto simp: verify_aadhaar_def split: outcome.splits exn.splits)
qed

text \<open>
  C4, as amended. For a content type that is neither \<open>application/pdf\<close> nor starts with
  \<open>image/\<close>, \<open>verify_aadhaar\<close> makes no library call and returns (it does not raise) the
  initial record with \<open>error\<close> set to \<open>Unsupported file type\<close> and \<open>valid\<close> false. Every
  content type that starts with \<open>image/\<close> is accepted: the first thing the call does is
  open the payload as an image.
\<close>

theorem unsupported_type_returned:
  "(content_type \<noteq> ''application/pdf'' \<and> \<not> starts_with ''image/'' content_type \<longrightarrow>
      verify_aadhaar E file_bytes content_type =
        (Ret \<lparr>aadhaar_number = None, dob = None, name = None, is_18_or_older = False,
              valid = False, error = Some ''Unsupported file type''\<rparr>, []))
   \<and> (starts_with ''image/'' content_type \<longrightarrow>
      (\<exists>calls. snd (verify_aadhaar E file_bytes content_type) = OpenImage # calls))"
proof -
  have a: "verify_aadhaar E file_bytes content_type =
        (Ret \<lparr>aadhaar_number = None, dob = None, name = None, is_18_or_older = False,
              valid = False, error = Some ''Unsupported file type''\<rparr>, [])"
    if "content_type \<noteq> ''application/pdf''" "\<not> starts_with ''image/'' content_type"
    using that
    by (simp add: verify_aadhaar_def try_body_def find_qr_code_string_def aadhaar_data0_def)
  have b: "\<exists>calls. snd (verify_aadhaar E file_bytes content_type) = OpenImage # calls"
    if "starts_with ''image/'' content_type"
  proof -
    from that have "content_type \<noteq> ''application/pdf''"
      by (auto simp: starts_with_def)
    with that have "\<exists>calls. snd (find_qr_code_string E file_bytes content_type) = OpenImage # calls"
      by (auto simp: find_qr_code_string_def split: sum.splits prod.splits)
    then obtain calls where
      "snd (find_qr_code_string E file_bytes content_type) = OpenImage # calls" ..
    then show ?thesis
      by (rule try_body_first_call)
  qed
  from a b show ?thesis by blast
qed

theorem unsupported_type_returned_witness:
  "''text/plain'' \<noteq> ''application/pdf'' \<and> \<not> starts_with ''image/'' ''text/plain''
   \<and> verify_aadhaar (plain_scan (Inr [])) () ''text/plain'' =
    (Ret \<lparr>aadhaar_number = None, dob = None, name = None, is_18_or_older = False,
          valid = False, error = Some ''Unsupported file type''\<rparr>, [])
   \<and> starts_with ''image/'' ''image/gif''
   \<and> (\<exists>calls. snd (verify_aadhaar (plain_scan (Inr [])) () ''image/gif'') = OpenImage # calls)"
  using unsupported_type_returned [of "''text/plain''" "plain_scan (Inr [])" "()"]
    unsupported_type_returned [of "''image/gif''" "plain_scan (Inr [])" "()"]
  by (simp add: starts_with_def)

text \<open>
  C4 as stated fails: for \<open>text/plain\<close> the failure is returned inside the record, not
  raised to the caller, and \<open>image/gif\<close>, which is outside pdf, jpeg and png, is not
  rejected at all but scanned and recognized.
\<close>

theorem unsupported_type_not_raised:
  "fst (verify_aadhaar (plain_scan (Inr [])) () ''text/plain'') =
     Ret \<lparr>aadhaar_number = None, dob = None, name = None, is_18_or_older = False,
          valid = False, error = Some ''Unsupported file type''\<rparr>
   \<and> verify_aadhaar (plain_scan (Inr [])) () ''image/gif'' =
     (Ret \<lparr>aadhaar_number = None, dob = None, name = None, is_18_or_older = False,
          valid = False, error = Some ''Could not extract valid Aadhaar details''\<rparr>,
      [OpenImage, Preprocess, ScanCode, OpenImage, Preprocess, Recognize])"
  by code_simp

subsection \<open>C1: what the structured tier wrote survives the fall-through\<close>

text \<open>
  C1 at a concrete run. The code decodes to a valid number and a date but no name, so
  line 118 does not return and recognition runs; the recognized text is \<open>Jane Doe\<close>. The
  record returned holds the number, the date, the age flag and \<open>valid\<close> of the code
  together with the name of the recognized text, whereas the recognition tier on that
  text alone finds no number and reports an invalid record.
\<close>

theorem tiers_merged:
  "verify_aadhaar (card qr_without_name (Inr ''Jane Doe'')) () ''image/png'' =
     (Ret \<lparr>aadhaar_number = Some ''XXXX XXXX 9012'', dob = Some ''15-06-2000'',
           name = Some ''Jane Doe'', is_18_or_older = True, valid = True, error = None\<rparr>,
      [OpenImage, Preprocess, ScanCode, DecodeCode, OpenImage, Preprocess, Recognize])
   \<and> ocr_fields noon ''Jane Doe'' aadhaar_data0 =
     Returns \<lparr>aadhaar_number = None, dob = None, name = Some ''Jane Doe'',
           is_18_or_older = False, valid = False,
           error = Some ''Could not extract valid Aadhaar details''\<rparr>"
  by code_simp

subsection \<open>C2: the number in the exception handler's record\<close>

text \<open>
  C2 at a concrete run. The code decodes to a valid number only, so line 103 stores it
  and control falls through; the recognition engine then raises. The handler of lines
  168 to 171 returns the record as it is: the twelve digits are in it unmasked.
\<close>

theorem unmasked_number_on_exception:
  "verify_aadhaar (card qr_number_only (Inl (Exception ''tesseract is not installed''))) () ''image/png'' =
     (Ret \<lparr>aadhaar_number = Some ''123456789012'', dob = None, name = None,
           is_18_or_older = False, valid = False,
           error = Some ''tesseract is not installed''\<rparr>,
      [OpenImage, Preprocess, ScanCode, DecodeCode, OpenImage, Preprocess, Recognize])"
  by code_simp

subsection \<open>C5: which name the pattern of line 135 finds\<close>

text \<open>
  C5 at a concrete text. The text has a line with \<open>DOB\<close> followed by the line \<open>Jane Doe\<close>,
  which the label-anchored alternative matches, but \<open>re.search\<close> returns the match at the
  leftmost start position: the unanchored alternative at position 0 gives
  \<open>Government of India\<close>.
\<close>

theorem leftmost_name_wins:
  "field_extractor card_text =
     Ret \<lparr>number_raw = Some ''123456789012'', dob_raw = Some ''15/06/2000'',
          name_raw = Some ''Government of India''\<rparr>
   \<and> map_option (\<lambda>m. group m 1) (re_search name_anchored card_text) = Some (Some ''Jane Doe'')"
  by code_simp

subsection \<open>What a match consumes\<close>

lemma rest_advance [simp]: "rest (advance j s) = drop j (rest s)"
  by (simp add: advance_def)

lemma groups_advance [simp]: "groups (advance j s) = groups s"
  by (simp add: advance_def)

lemma take_takeWhile_all: "j \<le> length (takeWhile Q xs) \<Longrightarrow> list_all Q (take j xs)"
proof (induction xs arbitrary: j)
  case Nil
  then show ?case by simp
next
  case (Cons x xs)
  then show ?case by (cases j) (auto split: if_splits)
qed

lemma list_all_mono: "list_all Q xs \<Longrightarrow> (\<forall>x. Q x \<longrightarrow> P x) \<Longrightarrow> list_all P xs"
  by (induction xs) auto

lemma ms_consumed: "s' \<in> set (ms r s) \<Longrightarrow> consumed P r s s'"
proof (induction r arbitrary: s s')
  case (Cls c)
  then show ?case
    by (cases "rest s") (auto simp: consumed_def split: if_splits)
next
  case (Rep c n)
  then show ?case
    by (auto simp: consumed_def split: if_splits intro: list_all_mono)
next
  case (Many c n)
  then obtain j where j: "s' = advance j s" "n \<le> j" "j \<le> length (takeWhile (in_cls c) (rest s))"
    by auto
  have "j \<le> length (rest s)"
    using j(3) length_takeWhile_le [of "in_cls c" "rest s"] by linarith
  moreover have "list_all (in_cls c) (take j (rest s))"
    using j(3) by (rule take_takeWhile_all)
  ultimately show ?case
    using j by (auto simp: consumed_def intro: list_all_mono)
next
  case (Seq a b)
  then obtain s1 where s1: "s1 \<in> set (ms a s)" "s' \<in> set (ms b s1)"
    by auto
  from Seq.IH(1) [OF s1(1)] obtain k1 where k1: "k1 \<le> length (rest s)" "rest s1 = drop k1 (rest s)"
      "min_len a \<le> k1" "accepts_only P a \<longrightarrow> list_all P (take k1 (rest s))"
    by (auto simp: consumed_def)
  from Seq.IH(2) [OF s1(2)] obtain k2 where k2: "k2 \<le> length (rest s1)" "rest s' = drop k2 (rest s1)"
      "min_len b \<le> k2" "accepts_only P b \<longrightarrow> list_all P (take k2 (rest s1))"
    by (auto simp: consumed_def)
  have "take (k1 + k2) (rest s) = take k1 (rest s) @ take k2 (drop k1 (rest s))"
    by (simp add: take_add)
  then show ?case
    unfolding consumed_def using k1 k2
    by (intro exI [of _ "k1 + k2"]) (auto simp: add.commute)
next
  case (Alt a b)
  from Alt.prems have "s' \<in> set (ms a s) \<or> s' \<in> set (ms b s)"
    by auto
  then have "consumed P a s s' \<or> consumed P b s s'"
    using Alt.IH by blast
  then obtain k where "k \<le> length (rest s)" "rest s' = drop k (rest s)"
      "min_len a \<le> k \<or> min_len b \<le> k"
      "accepts_only P a \<and> accepts_only P b \<longrightarrow> list_all P (take k (rest s))"
    unfolding consumed_def by blast
  then show ?case
    unfolding consumed_def by (intro exI [of _ k]) auto
next
  case (Opt a)
  from Opt.prems have "s' \<in> set (ms a s) \<or> s' = s"
    by auto
  then show ?case
  proof
    assume "s' \<in> set (ms a s)"
    from Opt.IH [OF this] obtain k where "k \<le> length (rest s)" "rest s' = drop k (rest s)"
        "accepts_only P a \<longrightarrow> list_all P (take k (rest s))"
      unfolding consumed_def by blast
    then show ?thesis
      unfolding consumed_def by (intro exI [of _ k]) auto
  next
    assume "s' = s"
    then show ?thesis
      unfolding consumed_def by (intro exI [of _ 0]) simp
  qed
next
  case Bnd
  then show ?case by (auto simp: consumed_def split: if_splits)
next
  case Eol
  then show ?case by (auto simp: consumed_def split: if_splits)
next
  case (Grp n a)
  then obtain s1 where s1: "s1 \<in> set (ms a s)" "rest s' = rest s1"
    by auto
  from Grp.IH [OF s1(1)] obtain k where "k \<le> length (rest s)" "rest s1 = drop k (rest s)"
      "min_len a \<le> k" "accepts_only P a \<longrightarrow> list_all P (take k (rest s))"
    unfolding consumed_def by blast
  then show ?case
    unfolding consumed_def using s1(2) by (intro exI [of _ k]) auto
qed


subsection \<open>The field extractor never raises\<close>

lemma ms_Seq: "set (ms (Seq a b) s) = (\<Union>s1\<in>set (ms a s). set (ms b s1))"
  by simp

lemma consumed_length:
  assumes "s' \<in> set (ms r s)"
  shows "length (rest s') + min_len r \<le> length (rest s)"
proof -
  from ms_consumed [OF assms, of "\<lambda>_. True"] obtain k where
    "k \<le> length (rest s)" "rest s' = drop k (rest s)" "min_len r \<le> k"
    unfolding consumed_def by blast
  then show ?thesis by simp
qed

lemma group_last:
  assumes "s' \<in> set (ms (Seq (Grp n r) Bnd) s1)"
  shows "\<exists>w. map_of (groups s') n = Some w \<and> min_len r \<le> length w"
proof -
  from assms obtain s2 where s2: "s2 \<in> set (ms r s1)"
      "s' = s2\<lparr>groups := (n, take (length (rest s1) - length (rest s2)) (rest s1)) # groups s2\<rparr>"
    by (auto split: if_splits)
  from consumed_length [OF s2(1)] have "min_len r \<le> length (rest s1) - length (rest s2)"
    by simp
  with s2(2) show ?thesis by simp
qed

lemma min_len_name_words: "min_len name_words = 5"
  by (simp add: name_words_def)

lemma name_pattern_groups:
  assumes "s' \<in> set (ms name_pattern s)"
  shows "\<exists>w. w \<noteq> [] \<and> (map_of (groups s') 1 = Some w \<or> map_of (groups s') 2 = Some w)"
proof -
  from assms have "s' \<in> set (ms name_anchored s) \<or> s' \<in> set (ms name_anywhere s)"
    by (simp add: name_pattern_def)
  then obtain s1 n where h: "s' \<in> set (ms (Seq (Grp n name_words) Bnd) s1)" and n: "n = 1 \<or> n = 2"
    unfolding name_anchored_def name_anywhere_def seqs.simps ms_Seq by blast
  from group_last [OF h] obtain w where w: "map_of (groups s') n = Some w" "5 \<le> length w"
    unfolding min_len_name_words by blast
  from w(2) have "w \<noteq> []" by auto
  with w(1) n show ?thesis by blast
qed

lemma match_at_name:
  assumes "match_at name_pattern p xs = Some m"
  shows "\<exists>w. py_or (group m 1) (group m 2) = Some w"
proof -
  obtain l where l: "ms name_pattern \<lparr>prev = p, rest = xs, groups = []\<rparr> = l"
    by simp
  show ?thesis
  proof (cases l)
    case Nil
    with l assms show ?thesis by (simp add: match_at_def)
  next
    case (Cons s' l')
    with l have "s' \<in> set (ms name_pattern \<lparr>prev = p, rest = xs, groups = []\<rparr>)"
      by simp
    from name_pattern_groups [OF this] obtain w where
      w: "w \<noteq> []" "map_of (groups s') 1 = Some w \<or> map_of (groups s') 2 = Some w"
      by blast
    from Cons l assms have "group m = map_of (groups s')"
      by (auto simp: match_at_def mk_match_def)
    with w show ?thesis
      by (auto simp: py_or_def truthy_def split: option.splits)
  qed
qed

lemma search_at_name:
  "search_at name_pattern p xs = Some m \<Longrightarrow> \<exists>w. py_or (group m 1) (group m 2) = Some w"
proof (induction xs arbitrary: p)
  case Nil
  then show ?case using match_at_name by simp
next
  case (Cons x xs)
  then show ?case
    using match_at_name [of p "x # xs" m] by (auto split: option.splits)
qed

lemma name_of_match_returns: "\<exists>n. name_of_match (re_search name_pattern recognized) = Ret n"
proof (cases "re_search name_pattern recognized")
  case None
  then show ?thesis by (simp add: name_of_match_def)
next
  case (Some m)
  with search_at_name [of None recognized m] show ?thesis
    by (auto simp: name_of_match_def re_search_def)
qed

lemma field_extractor_returns: "\<exists>f. field_extractor recognized = Ret f"
  using name_of_match_returns [of recognized]
  by (auto simp: field_extractor_def Let_def)

lemma ocr_fields_returns:
  "field_extractor recognized = Ret f \<Longrightarrow> ocr_fields now_t recognized d = Returns (result_normalizer now_t f d)"
  by (simp add: ocr_fields_def)

subsection \<open>C9: without a decodable code the result is that of recognition alone\<close>

lemma try_body_fallback:
  assumes "find_qr_code_string E file_bytes content_type = (Ret q, calls)"
    and "qr_tier E q aadhaar_data0 = (Continues d, calls')"
    and "extract_text_from_file E file_bytes content_type = (Ret recognized, calls'')"
    and "field_extractor recognized = Ret f"
  shows "verify_aadhaar E file_bytes content_type =
    (Ret (result_normalizer (now E) f d), calls @ calls' @ calls'')"
  using assms by (simp add: verify_aadhaar_def try_body_def ocr_fields_def)

text \<open>
  C9. When the scan of the pages yields no code string (\<open>None\<close> or the empty string), or
  the decoder fails on the string found (it raises an \<open>Exception\<close>, which line 93
  catches), and recognition yields a text, then the field
  extractor succeeds on that text and the record returned by \<open>verify_aadhaar\<close> is what
  lines 138 to 166 compute from the extracted fields on the initial record: nothing of
  the structured tier is in it.
\<close>

theorem tier_independence:
  assumes "find_qr_code_string E file_bytes content_type = (Ret q, calls)"
    and "\<not> truthy q \<or> (\<exists>s m. q = Some s \<and> secure_qr_decode E s = Inl (Exception m))"
    and "extract_text_from_file E file_bytes content_type = (Ret recognized, calls')"
  shows "\<exists>f. field_extractor recognized = Ret f
    \<and> fst (verify_aadhaar E file_bytes content_type) =
        Ret (result_normalizer (now E) f aadhaar_data0)"
proof -
  obtain f where f: "field_extractor recognized = Ret f"
    using field_extractor_returns by blast
  from assms(2) have "\<exists>c. qr_tier E q aadhaar_data0 = (Continues aadhaar_data0, c)"
    by (auto simp: qr_tier_def truthy_def split: option.splits)
  then obtain c where "qr_tier E q aadhaar_data0 = (Continues aadhaar_data0, c)" ..
  from try_body_fallback [OF assms(1) this assms(3) f] f show ?thesis
    by simp
qed

lemma plain_scan_no_code:
  "find_qr_code_string (plain_scan ocr) () ''image/png'' = (Ret None, [OpenImage, Preprocess, ScanCode])"
  by (simp add: find_qr_code_string_def starts_with_def plain_scan_def extract_qr_code_def)

lemma plain_scan_text:
  "extract_text_from_file (plain_scan (Inr recognized)) () ''image/png'' =
     (Ret recognized, [OpenImage, Preprocess, Recognize])"
  by (simp add: extract_text_from_file_def starts_with_def plain_scan_def)

lemma card_text_fields:
  "field_extractor card_text =
     Ret \<lparr>number_raw = Some ''123456789012'', dob_raw = Some ''15/06/2000'',
          name_raw = Some ''Government of India''\<rparr>"
  by code_simp

theorem tier_independence_witness:
  "find_qr_code_string (plain_scan (Inr card_text)) () ''image/png'' =
     (Ret None, [OpenImage, Preprocess, ScanCode])
   \<and> \<not> truthy None
   \<and> extract_text_from_file (plain_scan (Inr card_text)) () ''image/png'' =
     (Ret card_text, [OpenImage, Preprocess, Recognize])
   \<and> fst (verify_aadhaar (plain_scan (Inr card_text)) () ''image/png'') =
     Ret (result_normalizer noon
       \<lparr>number_raw = Some ''123456789012'', dob_raw = Some ''15/06/2000'',
        name_raw = Some ''Government of India''\<rparr> aadhaar_data0)"
proof -
  have n: "now (plain_scan (Inr card_text)) = noon"
    by (simp add: plain_scan_def)
  have t: "\<not> truthy None
      \<or> (\<exists>s m. None = Some s \<and> secure_qr_decode (plain_scan (Inr card_text)) s = Inl (Exception m))"
    by (simp add: truthy_def)
  from tier_independence [OF plain_scan_no_code t plain_scan_text]
  show ?thesis
    using plain_scan_no_code [of "Inr card_text"] plain_scan_text [of card_text] card_text_fields n
    by (auto simp: truthy_def)
qed

subsection \<open>Dates: what a successful parse consumes\<close>

lemma strptime_consumed:
  assumes "strptime s fmt = Some t"
  shows "min_len (format_regex fmt) \<le> length s
    \<and> (accepts_only P (format_regex fmt) \<longrightarrow> list_all P s) \<and> dt_micro t = 0"
proof -
  obtain l where l: "ms (format_regex fmt) \<lparr>prev = None, rest = s, groups = []\<rparr> = l"
    by simp
  show ?thesis
  proof (cases l)
    case Nil
    with l assms show ?thesis by (simp add: strptime_def)
  next
    case (Cons found l')
    with l assms have r: "rest found = []" and m: "dt_micro t = 0"
      by (auto simp: strptime_def Let_def split: if_splits)
    from Cons l have "found \<in> set (ms (format_regex fmt) \<lparr>prev = None, rest = s, groups = []\<rparr>)"
      by simp
    from ms_consumed [OF this, of P] obtain k where k: "k \<le> length s" "rest found = drop k s"
        "min_len (format_regex fmt) \<le> k" "accepts_only P (format_regex fmt) \<longrightarrow> list_all P (take k s)"
      unfolding consumed_def by auto
    from k(1,2) r have "k = length s" by simp
    with k m show ?thesis by simp
  qed
qed

lemma digit_not_sep: "is_digit x \<Longrightarrow> x \<noteq> CHR ''-'' \<and> x \<noteq> CHR ''/''"
  by (auto simp: is_digit_def code_def)

lemma slash_no_dash: "accepts_only (\<lambda>c. c \<noteq> CHR ''-'') (format_regex fmt_slash)"
  by (auto simp: format_regex_def fmt_slash_def chr_def nonzero_digit_def dest: digit_not_sep)

lemma dash_no_slash: "accepts_only (\<lambda>c. c \<noteq> CHR ''/'') (format_regex fmt_dash)"
  by (auto simp: format_regex_def fmt_dash_def chr_def nonzero_digit_def dest: digit_not_sep)

lemma iso_no_slash: "accepts_only (\<lambda>c. c \<noteq> CHR ''/'') (format_regex fmt_iso)"
  by (auto simp: format_regex_def fmt_iso_def chr_def nonzero_digit_def dest: digit_not_sep)

lemma strptime_slash_None: "CHR ''-'' \<in> set s \<Longrightarrow> strptime s fmt_slash = None"
  using strptime_consumed [of s fmt_slash _ "\<lambda>c. c \<noteq> CHR ''-''"] slash_no_dash
  by (cases "strptime s fmt_slash") (auto simp: list_all_iff)

lemma strptime_dash_None: "CHR ''/'' \<in> set s \<Longrightarrow> strptime s fmt_dash = None"
  using strptime_consumed [of s fmt_dash _ "\<lambda>c. c \<noteq> CHR ''/''"] dash_no_slash
  by (cases "strptime s fmt_dash") (auto simp: list_all_iff)

lemma strptime_iso_None: "CHR ''/'' \<in> set s \<Longrightarrow> strptime s fmt_iso = None"
  using strptime_consumed [of s fmt_iso _ "\<lambda>c. c \<noteq> CHR ''/''"] iso_no_slash
  by (cases "strptime s fmt_iso") (auto simp: list_all_iff)

lemma parse_dob_formats:
  "(CHR ''/'' \<in> set s \<longrightarrow> parse_dob s = strptime s fmt_slash)
   \<and> (CHR ''-'' \<in> set s \<and> length (takeWhile (\<lambda>c. c \<noteq> CHR ''-'') s) = 2
        \<longrightarrow> parse_dob s = strptime s fmt_dash)
   \<and> (CHR ''-'' \<in> set s \<and> length (takeWhile (\<lambda>c. c \<noteq> CHR ''-'') s) = 4
        \<longrightarrow> parse_dob s = strptime s fmt_iso)
   \<and> (CHR ''/'' \<notin> set s \<and> CHR ''-'' \<notin> set s \<longrightarrow> parse_dob s = strptime s fmt_blank)"
  by (simp add: parse_dob_def strptime_slash_None strptime_dash_None strptime_iso_None)

lemma parse_dob_micro: "parse_dob s = Some t \<Longrightarrow> dt_micro t = 0"
  using strptime_consumed [of s _ t "\<lambda>_. True"]
  by (auto simp: parse_dob_def split: if_splits)

lemma min_len_formats:
  "min_len (format_regex fmt_slash) = 8" "min_len (format_regex fmt_dash) = 8"
  "min_len (format_regex fmt_iso) = 8" "min_len (format_regex fmt_blank) = 8"
  by (simp_all add: format_regex_def fmt_slash_def fmt_dash_def fmt_iso_def fmt_blank_def
      chr_def nonzero_digit_def)

subsection \<open>The age computation\<close>

lemma parse_dob_nonempty: "parse_dob s = Some t \<Longrightarrow> s \<noteq> []"
  using strptime_consumed [of s _ t "\<lambda>_. True"] min_len_formats
  by (auto simp: parse_dob_def split: if_splits)

lemma days_between:
  assumes "0 \<le> dt_micro a" and "dt_micro a < micros_per_day" and "dt_micro b = 0"
  shows "timedelta_days a b = toordinal (dt_date a) - toordinal (dt_date b)"
proof -
  have "total_micros a - total_micros b =
      (toordinal (dt_date a) - toordinal (dt_date b)) * micros_per_day + dt_micro a"
    using assms(3) by (simp add: total_micros_def algebra_simps)
  moreover have "0 < micros_per_day"
    by (simp add: micros_per_day_def)
  ultimately show ?thesis
    using assms(1,2) by (simp add: timedelta_days_def div_pos_pos_trivial)
qed

lemma normalizer_age:
  assumes "dob_raw f = Some s" and "parse_dob s = Some t"
  shows "is_18_or_older (result_normalizer now_t f d) = (18 \<le> age now_t t)"
    and "dob (result_normalizer now_t f d) = Some s"
  using assms parse_dob_nonempty [OF assms(2)]
  by (simp_all add: result_normalizer_def Let_def split: option.splits)

lemma normalizer_reset:
  assumes "dob_raw f = Some s" and "s \<noteq> []" and "parse_dob s = None"
  shows "\<not> is_18_or_older (result_normalizer now_t f d)"
    and "dob (result_normalizer now_t f d) = None"
  using assms
  by (simp_all add: result_normalizer_def Let_def split: option.splits)

lemma qr_fields_age:
  assumes "map_of qr_data ''dob'' = Some s" and "strptime s fmt_dash = Some t"
  shows "is_18_or_older (flow_data (qr_fields now_t qr_data d)) = (18 \<le> age now_t t)"
  using assms strptime_nonempty [OF assms(2)]
  by (simp add: qr_fields_def Let_def split: option.splits)

subsection \<open>C8: age in whole days floor-divided by 365\<close>

text \<open>
  C8. Let the clock be a proper time of day, and let \<open>r\<close> be the record after lines 138
  to 166 when the extracted date parses to \<open>t\<close>, or the record after lines 97 to 120 when
  the date of the code parses to \<open>t\<close>. Then the age is the number of whole days from \<open>t\<close>
  to now floor-divided by 365, \<open>is_18_or_older\<close> is true exactly when that quotient is
  at least 18, a date 18 * 365 days before today gives true, and one day less gives
  false.
\<close>

theorem age_floor_365:
  assumes "0 \<le> dt_micro now_t" and "dt_micro now_t < micros_per_day"
    and "(dob_raw f = Some s \<and> parse_dob s = Some t \<and> r = result_normalizer now_t f d)
       \<or> (map_of qr_data ''dob'' = Some s \<and> strptime s fmt_dash = Some t
            \<and> r = flow_data (qr_fields now_t qr_data d))"
  shows "age now_t t = (toordinal (dt_date now_t) - toordinal (dt_date t)) div 365
    \<and> is_18_or_older r = (18 \<le> age now_t t)
    \<and> (toordinal (dt_date now_t) - toordinal (dt_date t) = 18 * 365 \<longrightarrow> is_18_or_older r)
    \<and> (toordinal (dt_date now_t) - toordinal (dt_date t) = 18 * 365 - 1 \<longrightarrow> \<not> is_18_or_older r)"
proof -
  from assms(3) have m: "dt_micro t = 0"
    using parse_dob_micro [of s t] strptime_consumed [of s fmt_dash t "\<lambda>_. True"] by auto
  have a: "age now_t t = (toordinal (dt_date now_t) - toordinal (dt_date t)) div 365"
    using days_between [OF assms(1,2) m] by (simp add: age_def)
  from assms(3) have b: "is_18_or_older r = (18 \<le> age now_t t)"
    using normalizer_age(1) [of f s t now_t d] qr_fields_age [of qr_data s t now_t d] by auto
  show ?thesis
    using a b by simp
qed

lemma toordinal_boundary:
  "toordinal (dt_date noon) - toordinal \<lparr>year = 2008, month = 11, day = 8\<rparr> = 18 * 365"
  "toordinal (dt_date noon) - toordinal \<lparr>year = 2008, month = 11, day = 9\<rparr> = 18 * 365 - 1"
  by code_simp+

lemma parse_boundary:
  "parse_dob ''08/11/2008'' = Some \<lparr>dt_date = \<lparr>year = 2008, month = 11, day = 8\<rparr>, dt_micro = 0\<rparr>"
  "parse_dob ''2008-11-09'' = Some \<lparr>dt_date = \<lparr>year = 2008, month = 11, day = 9\<rparr>, dt_micro = 0\<rparr>"
  by code_simp+

theorem age_floor_365_witness:
  "0 \<le> dt_micro noon \<and> dt_micro noon < micros_per_day
   \<and> parse_dob ''08/11/2008'' =
       Some \<lparr>dt_date = \<lparr>year = 2008, month = 11, day = 8\<rparr>, dt_micro = 0\<rparr>
   \<and> toordinal (dt_date noon) - toordinal \<lparr>year = 2008, month = 11, day = 8\<rparr> = 18 * 365
   \<and> is_18_or_older (result_normalizer noon
        \<lparr>number_raw = None, dob_raw = Some ''08/11/2008'', name_raw = None\<rparr> aadhaar_data0)
   \<and> parse_dob ''2008-11-09'' =
       Some \<lparr>dt_date = \<lparr>year = 2008, month = 11, day = 9\<rparr>, dt_micro = 0\<rparr>
   \<and> toordinal (dt_date noon) - toordinal \<lparr>year = 2008, month = 11, day = 9\<rparr> = 18 * 365 - 1
   \<and> \<not> is_18_or_older (result_normalizer noon
        \<lparr>number_raw = None, dob_raw = Some ''2008-11-09'', name_raw = None\<rparr> aadhaar_data0)"
proof -
  have m: "0 \<le> dt_micro noon" "dt_micro noon < micros_per_day"
    by (simp_all add: noon_def micros_per_day_def)
  have a: "is_18_or_older (result_normalizer noon
        \<lparr>number_raw = None, dob_raw = Some ''08/11/2008'', name_raw = None\<rparr> aadhaar_data0)"
    using age_floor_365 [OF m, of
        "\<lparr>number_raw = None, dob_raw = Some ''08/11/2008'', name_raw = None\<rparr>" "''08/11/2008''"
        "\<lparr>dt_date = \<lparr>year = 2008, month = 11, day = 8\<rparr>, dt_micro = 0\<rparr>"
        "result_normalizer noon
           \<lparr>number_raw = None, dob_raw = Some ''08/11/2008'', name_raw = None\<rparr> aadhaar_data0"
        aadhaar_data0]
      parse_boundary(1) toordinal_boundary(1)
    by simp
  have b: "\<not> is_18_or_older (result_normalizer noon
        \<lparr>number_raw = None, dob_raw = Some ''2008-11-09'', name_raw = None\<rparr> aadhaar_data0)"
    using age_floor_365 [OF m, of
        "\<lparr>number_raw = None, dob_raw = Some ''2008-11-09'', name_raw = None\<rparr>" "''2008-11-09''"
        "\<lparr>dt_date = \<lparr>year = 2008, month = 11, day = 9\<rparr>, dt_micro = 0\<rparr>"
        "result_normalizer noon
           \<lparr>number_raw = None, dob_raw = Some ''2008-11-09'', name_raw = None\<rparr> aadhaar_data0"
        aadhaar_data0]
      parse_boundary(2) toordinal_boundary(2)
    by simp
  show ?thesis
    using m a b parse_boundary toordinal_boundary by simp
qed

subsection \<open>The extracted date is never empty\<close>

lemma match_at_group0: "match_at r p xs = Some m \<Longrightarrow> min_len r \<le> length (group0 m)"
proof -
  assume a: "match_at r p xs = Some m"
  obtain l where l: "ms r \<lparr>prev = p, rest = xs, groups = []\<rparr> = l"
    by simp
  show ?thesis
  proof (cases l)
    case Nil
    with l a show ?thesis by (simp add: match_at_def)
  next
    case (Cons s' l')
    with l have "s' \<in> set (ms r \<lparr>prev = p, rest = xs, groups = []\<rparr>)"
      by simp
    from consumed_length [OF this] have "min_len r \<le> length xs - length (rest s')"
      by simp
    moreover from Cons l a have "group0 m = take (length xs - length (rest s')) xs"
      by (auto simp: match_at_def mk_match_def)
    ultimately show ?thesis by simp
  qed
qed

lemma search_at_group0: "search_at r p xs = Some m \<Longrightarrow> min_len r \<le> length (group0 m)"
proof (induction xs arbitrary: p)
  case Nil
  then show ?case using match_at_group0 by simp
next
  case (Cons x xs)
  then show ?case
    using match_at_group0 [of r p "x # xs" m] by (auto split: option.splits)
qed

lemma min_len_dob_pattern: "min_len dob_pattern = 10"
  by (simp add: dob_pattern_def chr_def)

lemma extracted_dob_nonempty:
  assumes "field_extractor recognized = Ret f" and "dob_raw f = Some s"
  shows "s \<noteq> []"
proof -
  from assms obtain m where "re_search dob_pattern recognized = Some m" "s = group0 m"
    by (auto simp: field_extractor_def Let_def split: res.splits)
  with search_at_group0 [of dob_pattern None recognized m] show ?thesis
    by (auto simp: re_search_def min_len_dob_pattern)
qed

subsection \<open>C7: the date format follows the separator\<close>

text \<open>
  C7. For the date string \<open>s\<close> that the field extractor finds in the recognized text:
  a \<open>/\<close> in \<open>s\<close> selects DD/MM/YYYY; a \<open>-\<close> with a two-character leading token selects
  DD-MM-YYYY; a \<open>-\<close> with a four-character leading token selects YYYY-MM-DD; with
  neither separator the white-space format DD MM YYYY is selected. The tier returns the
  record of lines 138 to 166; when the selected parse fails, whatever record \<open>d\<close> the tier
  started from, \<open>dob\<close> is \<open>None\<close> and \<open>is_18_or_older\<close> is false; when it succeeds, \<open>dob\<close> is
  \<open>s\<close> and the flag is the age test.
\<close>

theorem dob_format_selection:
  assumes "field_extractor recognized = Ret f" and "dob_raw f = Some s"
  shows "(CHR ''/'' \<in> set s \<longrightarrow> parse_dob s = strptime s fmt_slash)
   \<and> (CHR ''-'' \<in> set s \<and> length (takeWhile (\<lambda>c. c \<noteq> CHR ''-'') s) = 2
        \<longrightarrow> parse_dob s = strptime s fmt_dash)
   \<and> (CHR ''-'' \<in> set s \<and> length (takeWhile (\<lambda>c. c \<noteq> CHR ''-'') s) = 4
        \<longrightarrow> parse_dob s = strptime s fmt_iso)
   \<and> (CHR ''/'' \<notin> set s \<and> CHR ''-'' \<notin> set s \<longrightarrow> parse_dob s = strptime s fmt_blank)
   \<and> ocr_fields now_t recognized d = Returns (result_normalizer now_t f d)
   \<and> (parse_dob s = None \<longrightarrow>
        dob (result_normalizer now_t f d) = None
        \<and> \<not> is_18_or_older (result_normalizer now_t f d))
   \<and> (\<forall>t. parse_dob s = Some t \<longrightarrow>
        dob (result_normalizer now_t f d) = Some s
        \<and> is_18_or_older (result_normalizer now_t f d) = (18 \<le> age now_t t))"
proof -
  have ne: "s \<noteq> []"
    using assms by (rule extracted_dob_nonempty)
  show ?thesis
    using parse_dob_formats [of s] ocr_fields_returns [OF assms(1), of now_t d]
      normalizer_reset [OF assms(2) ne, of now_t d] normalizer_age [OF assms(2), of _ now_t d]
    by simp
qed

lemma malformed_fields:
  "field_extractor ''1234 5678 9012 31-13-2000'' =
     Ret \<lparr>number_raw = Some ''123456789012'', dob_raw = Some ''31-13-2000'', name_raw = None\<rparr>"
  by code_simp

lemma malformed_parse: "strptime ''31-13-2000'' fmt_dash = None"
  by code_simp

theorem dob_format_selection_witness:
  "field_extractor ''1234 5678 9012 31-13-2000'' =
     Ret \<lparr>number_raw = Some ''123456789012'', dob_raw = Some ''31-13-2000'', name_raw = None\<rparr>
   \<and> parse_dob ''31-13-2000'' = strptime ''31-13-2000'' fmt_dash
   \<and> strptime ''31-13-2000'' fmt_dash = None
   \<and> ocr_fields noon ''1234 5678 9012 31-13-2000''
        (aadhaar_data0\<lparr>dob := Some ''15-06-2000'', is_18_or_older := True\<rparr>) =
      Returns \<lparr>aadhaar_number = Some ''XXXX XXXX 9012'', dob = None, name = None,
        is_18_or_older = False, valid = True, error = None\<rparr>"
proof -
  have r: "result_normalizer noon
      \<lparr>number_raw = Some ''123456789012'', dob_raw = Some ''31-13-2000'', name_raw = None\<rparr>
      (aadhaar_data0\<lparr>dob := Some ''15-06-2000'', is_18_or_older := True\<rparr>) =
      \<lparr>aadhaar_number = Some ''XXXX XXXX 9012'', dob = None, name = None,
        is_18_or_older = False, valid = True, error = None\<rparr>"
    by code_simp
  show ?thesis
    using dob_format_selection [OF malformed_fields, of "''31-13-2000''" noon
        "aadhaar_data0\<lparr>dob := Some ''15-06-2000'', is_18_or_older := True\<rparr>"]
      malformed_fields malformed_parse r
    by simp
qed

end
